theory Spec2Isabelle
  imports Main "HOL-Library.Word" "HOL-Library.Sublist"
begin

unbundle bit_operations_syntax

section \<open>The h264decoder package: data model\<close>

text \<open>
  The package \<^verbatim>\<open>decoder\<close> is a thin layer of Go over three native libraries
  (avcodec, avutil, swscale). The Go code of \<^verbatim>\<open>decoder.go\<close> is embedded below function by
  function. The native libraries are not part of the repository: every native function the
  Go code calls is a field of the record \<open>engine\<close>, over a native state \<open>'n\<close> that the Go
  code never inspects except through those functions.

  Native objects are referred to through C pointers, \<open>None\<close> being \<^verbatim>\<open>nil\<close>. A Go
  \<^verbatim>\<open>error\<close> is its message; a value of type \<open>error option\<close> is \<open>None\<close> for a
  \<^verbatim>\<open>nil\<close> error.
\<close>

type_synonym byte = "8 word"
type_synonym cptr = "nat option"
type_synonym error = string

text \<open>
  \<^verbatim>\<open>type Frame struct { Data []byte; Width, Height, Stride int }\<close>.
  A Go slice is a reference into memory managed by the Go runtime: \<open>Data\<close> is the
  address of the byte buffer in the heap of the \<open>world\<close> below, and the length of the slice is
  the length of the buffer stored there.
\<close>

record Frame =
  Data :: nat
  Width :: int
  Height :: int
  Stride :: int

text \<open>
  \<^verbatim>\<open>type converter struct { framergb; context; pixFmt }\<close> and
  \<^verbatim>\<open>type Decoder struct { context; parser; frame; pkt; converter }\<close>.
  The field names carry a prefix, since \<^verbatim>\<open>context\<close> occurs in both structs.
\<close>

record converter =
  c_framergb :: cptr
  c_context :: cptr
  c_pixFmt :: int

record Decoder =
  d_context :: cptr
  d_parser :: cptr
  d_frame :: cptr
  d_pkt :: cptr
  d_converter :: converter

text \<open>The native calls the Go code makes, as they appear in a run, with the pointer or
  number each one returned or was given.\<close>

datatype event =
    Ev_AvcodecRegisterAll
  | Ev_AvcodecFindDecoder cptr
  | Ev_AvcodecAllocContext3 cptr
  | Ev_AvcodecOpen2 int
  | Ev_AvParserInit cptr
  | Ev_AvFrameAlloc cptr
  | Ev_AvPacketAlloc cptr
  | Ev_AvInitPacket
  | Ev_SetFlags
  | Ev_AvParserParse2 int
  | Ev_AvcodecDecodeVideo2 "int \<times> int"
  | Ev_AvpictureFill int
  | Ev_AvMalloc cptr
  | Ev_AvFree cptr
  | Ev_SwsGetcontext cptr
  | Ev_SwsGetcachedcontext cptr
  | Ev_AvSetFrame "error option"
  | Ev_SwsScale2 int
  | Ev_SwsFreecontext cptr
  | Ev_AvParserClose cptr
  | Ev_AvcodecClose cptr
  | Ev_AvFrameFree cptr
  | Ev_AvFreePacket cptr

text \<open>
  The native libraries. The constants are those of the avcodec package that the Go code
  names; \<^verbatim>\<open>av_PIX_FMT_BGR24 = 3\<close> is defined in \<^verbatim>\<open>decoder.go\<close> itself.
  \<open>FrameLinesize\<close> and \<open>FrameData\<close> are the arrays \<^verbatim>\<open>[8]int32\<close> and
  \<^verbatim>\<open>[8]*uint8\<close> of a native frame, as functions of the index.
  \<open>CMemory n p i\<close> is the byte at offset \<open>i\<close> from the C pointer \<open>p\<close>.
\<close>

record 'n engine =
  AV_PIX_FMT_RGB24 :: int
  AV_CODEC_ID_H264 :: int
  AV_CODEC_ID_H265 :: int
  AV_CODEC_FLAG_TRUNCATED :: int
  AV_NOPTS_VALUE :: int
  SWS_BILINEAR :: int
  AvcodecRegisterAll :: "'n \<Rightarrow> 'n"
  AvcodecFindDecoder :: "int \<Rightarrow> 'n \<Rightarrow> cptr \<times> 'n"
  AvcodecAllocContext3 :: "cptr \<Rightarrow> 'n \<Rightarrow> cptr \<times> 'n"
  AvcodecOpen2 :: "cptr \<Rightarrow> cptr \<Rightarrow> cptr \<Rightarrow> 'n \<Rightarrow> int \<times> 'n"
  AvParserInit :: "int \<Rightarrow> 'n \<Rightarrow> cptr \<times> 'n"
  AvFrameAlloc :: "'n \<Rightarrow> cptr \<times> 'n"
  AvPacketAlloc :: "'n \<Rightarrow> cptr \<times> 'n"
  AvInitPacket :: "cptr \<Rightarrow> 'n \<Rightarrow> 'n"
  PacketFlags :: "'n \<Rightarrow> cptr \<Rightarrow> int"
  PacketSetFlags :: "cptr \<Rightarrow> int \<Rightarrow> 'n \<Rightarrow> 'n"
  PacketSize :: "'n \<Rightarrow> cptr \<Rightarrow> int"
  AvParserParse2 ::
    "cptr \<Rightarrow> cptr \<Rightarrow> cptr \<Rightarrow> byte list \<Rightarrow> int \<Rightarrow> int \<Rightarrow> int \<Rightarrow> int \<Rightarrow> 'n \<Rightarrow> int \<times> 'n"
  AvcodecDecodeVideo2 :: "cptr \<Rightarrow> cptr \<Rightarrow> cptr \<Rightarrow> 'n \<Rightarrow> (int \<times> int) \<times> 'n"
  ContextWidth :: "'n \<Rightarrow> cptr \<Rightarrow> int"
  ContextHeight :: "'n \<Rightarrow> cptr \<Rightarrow> int"
  ContextPixFmt :: "'n \<Rightarrow> cptr \<Rightarrow> int"
  AvpictureFill :: "cptr \<Rightarrow> cptr \<Rightarrow> int \<Rightarrow> int \<Rightarrow> int \<Rightarrow> 'n \<Rightarrow> int \<times> 'n"
  AvMalloc :: "nat \<Rightarrow> 'n \<Rightarrow> cptr \<times> 'n"
  AvFree :: "cptr \<Rightarrow> 'n \<Rightarrow> 'n"
  SwsGetcontext ::
    "int \<Rightarrow> int \<Rightarrow> int \<Rightarrow> int \<Rightarrow> int \<Rightarrow> int \<Rightarrow> int \<Rightarrow> cptr \<Rightarrow> cptr \<Rightarrow> cptr \<Rightarrow> 'n \<Rightarrow> cptr \<times> 'n"
  SwsGetcachedcontext ::
    "cptr \<Rightarrow> int \<Rightarrow> int \<Rightarrow> int \<Rightarrow> int \<Rightarrow> int \<Rightarrow> int \<Rightarrow> int \<Rightarrow> cptr \<Rightarrow> cptr \<Rightarrow> cptr \<Rightarrow> 'n
      \<Rightarrow> cptr \<times> 'n"
  AvSetFrame :: "cptr \<Rightarrow> int \<Rightarrow> int \<Rightarrow> int \<Rightarrow> 'n \<Rightarrow> error option \<times> 'n"
  SwsScale2 ::
    "cptr \<Rightarrow> (nat \<Rightarrow> cptr) \<Rightarrow> (nat \<Rightarrow> 32 word) \<Rightarrow> int \<Rightarrow> int \<Rightarrow> (nat \<Rightarrow> cptr) \<Rightarrow> (nat \<Rightarrow> 32 word)
      \<Rightarrow> 'n \<Rightarrow> int \<times> 'n"
  FrameWidth :: "'n \<Rightarrow> cptr \<Rightarrow> int"
  FrameHeight :: "'n \<Rightarrow> cptr \<Rightarrow> int"
  FrameLinesize :: "'n \<Rightarrow> cptr \<Rightarrow> nat \<Rightarrow> 32 word"
  FrameData :: "'n \<Rightarrow> cptr \<Rightarrow> nat \<Rightarrow> cptr"
  CMemory :: "'n \<Rightarrow> cptr \<Rightarrow> nat \<Rightarrow> byte"
  SwsFreecontext :: "cptr \<Rightarrow> 'n \<Rightarrow> 'n"
  AvParserClose :: "cptr \<Rightarrow> 'n \<Rightarrow> 'n"
  AvcodecClose :: "cptr \<Rightarrow> 'n \<Rightarrow> 'n"
  AvFrameFree :: "cptr \<Rightarrow> 'n \<Rightarrow> 'n"
  AvFreePacket :: "cptr \<Rightarrow> 'n \<Rightarrow> 'n"

text \<open>
  Everything a call of the package can read or change: the state of the native libraries,
  the byte buffers allocated by the Go runtime (a buffer's address is its index; the runtime
  never moves or reuses a buffer that is still referenced), and the native calls made so far.
\<close>

record 'n world =
  native :: 'n
  heap :: "byte list list"
  trace :: "event list"

text \<open>A Go call either returns or panics.\<close>

datatype 'a go = Ret 'a | Panic

text \<open>A native call that returns a value, and one that returns nothing.\<close>

definition extern :: "('a \<Rightarrow> event) \<Rightarrow> ('n \<Rightarrow> 'a \<times> 'n) \<Rightarrow> 'n world \<Rightarrow> 'a \<times> 'n world" where
  "extern ev f w =
     (case f (native w) of (r, n') \<Rightarrow> (r, w\<lparr>native := n', trace := trace w @ [ev r]\<rparr>))"

definition extern_unit :: "event \<Rightarrow> ('n \<Rightarrow> 'n) \<Rightarrow> 'n world \<Rightarrow> 'n world" where
  "extern_unit ev f w = w\<lparr>native := f (native w), trace := trace w @ [ev]\<rparr>"

text \<open>Conversions between Go's 64-bit \<^verbatim>\<open>int\<close>, \<^verbatim>\<open>uintptr\<close> and C's 32-bit
  \<^verbatim>\<open>int\<close>: the low bits are kept.\<close>

definition go_int :: "int \<Rightarrow> int" where
  "go_int x = (x + 2 ^ 63) mod 2 ^ 64 - 2 ^ 63"

definition uintptr :: "int \<Rightarrow> nat" where
  "uintptr x = nat (x mod 2 ^ 64)"

definition C_int :: "int \<Rightarrow> int" where
  "C_int x = (x + 2 ^ 31) mod 2 ^ 32 - 2 ^ 31"

definition av_PIX_FMT_BGR24 :: int where
  "av_PIX_FMT_BGR24 = 3"

definition PixelFormatRGB :: "'n engine \<Rightarrow> int" where
  "PixelFormatRGB eng = AV_PIX_FMT_RGB24 eng"

definition PixelFormatBGR :: int where
  "PixelFormatBGR = av_PIX_FMT_BGR24"

definition H264 :: "'n engine \<Rightarrow> int" where
  "H264 eng = AV_CODEC_ID_H264 eng"

definition H265 :: "'n engine \<Rightarrow> int" where
  "H265 eng = AV_CODEC_ID_H265 eng"

section \<open>The converter\<close>

text \<open>\<^verbatim>\<open>newConverter\<close>: the scaling context stays \<^verbatim>\<open>nil\<close>.\<close>

definition newConverter :: "'n engine \<Rightarrow> int \<Rightarrow> 'n world \<Rightarrow> (error + converter) \<times> 'n world" where
  "newConverter eng pixelFormat w =
     (case extern Ev_AvFrameAlloc (AvFrameAlloc eng) w of (framergb, w1) \<Rightarrow>
        if framergb = None then (Inl ''cannot allocate frame'', w1)
        else (Inr \<lparr>c_framergb = framergb, c_context = None, c_pixFmt = pixelFormat\<rparr>, w1))"

text \<open>\<^verbatim>\<open>PredictSize\<close>: \<^verbatim>\<open>AvpictureFill\<close> on the converter's frame with a \<^verbatim>\<open>nil\<close> buffer.\<close>

definition PredictSize :: "'n engine \<Rightarrow> converter \<Rightarrow> int \<Rightarrow> int \<Rightarrow> 'n world \<Rightarrow> int \<times> 'n world" where
  "PredictSize eng c w0 h0 w =
     extern Ev_AvpictureFill (AvpictureFill eng (c_framergb c) None (c_pixFmt c) w0 h0) w"

text \<open>
  \<^verbatim>\<open>Convert\<close>. The scaling context obtained is held in the local \<^verbatim>\<open>swsCtx\<close> only; the
  test after it is on the parameter \<^verbatim>\<open>context\<close>, the codec context.
\<close>

definition Convert ::
  "'n engine \<Rightarrow> converter \<Rightarrow> cptr \<Rightarrow> cptr \<Rightarrow> cptr \<Rightarrow> 'n world \<Rightarrow> (error + cptr) \<times> 'n world" where
  "Convert eng c ctx frame out_rgb w =
     (let w0 = ContextWidth eng (native w) ctx;
          h0 = ContextHeight eng (native w) ctx;
          pixFmt = ContextPixFmt eng (native w) ctx;
          (swsCtx, w1) =
            (if c_context c = None
             then extern Ev_SwsGetcontext
                    (SwsGetcontext eng w0 h0 pixFmt w0 h0 (c_pixFmt c) (SWS_BILINEAR eng)
                       None None None) w
             else extern Ev_SwsGetcachedcontext
                    (SwsGetcachedcontext eng (c_context c) w0 h0 pixFmt w0 h0 (c_pixFmt c)
                       (SWS_BILINEAR eng) None None None) w)
      in if ctx = None then (Inl ''cannot allocate context'', w1)
         else
           (case extern Ev_AvSetFrame (AvSetFrame eng (c_framergb c) w0 h0 (c_pixFmt c)) w1 of
              (Some err, w2) \<Rightarrow> (Inl err, w2)
            | (None, w2) \<Rightarrow>
                (let (_, w3) = extern Ev_AvpictureFill
                       (AvpictureFill eng (c_framergb c) out_rgb (c_pixFmt c) w0 h0) w2;
                     (_, w4) = extern Ev_SwsScale2
                       (SwsScale2 eng swsCtx (FrameData eng (native w3) frame)
                          (FrameLinesize eng (native w3) frame) 0 h0
                          (FrameData eng (native w3) (c_framergb c))
                          (FrameLinesize eng (native w3) (c_framergb c))) w3
                 in (Inr (c_framergb c), w4))))"

definition converter_Close :: "'n engine \<Rightarrow> converter \<Rightarrow> 'n world \<Rightarrow> 'n world" where
  "converter_Close eng c w =
     (let w1 = extern_unit (Ev_SwsFreecontext (c_context c)) (SwsFreecontext eng (c_context c)) w
      in extern_unit (Ev_AvFrameFree (c_framergb c)) (AvFrameFree eng (c_framergb c)) w1)"

section \<open>Frames\<close>

text \<open>
  \<^verbatim>\<open>C.GoBytes(p, n)\<close> panics on a negative length; otherwise the runtime allocates a
  new buffer of \<open>n\<close> bytes and copies the C memory into it.
\<close>

definition GoBytes :: "'n engine \<Rightarrow> cptr \<Rightarrow> int \<Rightarrow> 'n world \<Rightarrow> (nat \<times> 'n world) go" where
  "GoBytes eng p n w =
     (if n < 0 then Panic
      else Ret (length (heap w),
                w\<lparr>heap := heap w @ [map (CMemory eng (native w) p) [0 ..< nat n]]\<rparr>))"

definition frameData :: "'n engine \<Rightarrow> cptr \<Rightarrow> 'n world \<Rightarrow> (nat \<times> 'n world) go" where
  "frameData eng frame w =
     (let h = FrameHeight eng (native w) frame;
          linesize = FrameLinesize eng (native w) frame;
          data = FrameData eng (native w) frame;
          size = go_int (sint (linesize 0) * h)
      in GoBytes eng (data 0) (C_int size) w)"

definition newFrame :: "'n engine \<Rightarrow> cptr \<Rightarrow> 'n world \<Rightarrow> (Frame \<times> 'n world) go" where
  "newFrame eng frame w =
     (let w0 = FrameWidth eng (native w) frame;
          h = FrameHeight eng (native w) frame;
          linesize = FrameLinesize eng (native w) frame
      in case frameData eng frame w of
           Panic \<Rightarrow> Panic
         | Ret (d, w1) \<Rightarrow>
             Ret (\<lparr>Data = d, Width = w0, Height = h, Stride = sint (linesize 0)\<rparr>, w1))"

section \<open>The decoder\<close>

text \<open>\<^verbatim>\<open>New\<close>. No path of it calls a function that frees or closes anything.\<close>

definition New :: "'n engine \<Rightarrow> int \<Rightarrow> int \<Rightarrow> 'n world \<Rightarrow> (error + Decoder) \<times> 'n world" where
  "New eng pxlFmt cpr w =
     (let w1 = extern_unit Ev_AvcodecRegisterAll (AvcodecRegisterAll eng) w;
          (codec, w2) = extern Ev_AvcodecFindDecoder (AvcodecFindDecoder eng cpr) w1
      in if codec = None then (Inl ''cannot find decoder'', w2) else
      let (ctx, w3) = extern Ev_AvcodecAllocContext3 (AvcodecAllocContext3 eng codec) w2
      in if ctx = None then (Inl ''cannot allocate context'', w3) else
      let (opened, w4) = extern Ev_AvcodecOpen2 (AvcodecOpen2 eng ctx codec None) w3
      in if opened < 0 then (Inl ''cannot open content'', w4) else
      let (parser, w5) = extern Ev_AvParserInit (AvParserInit eng cpr) w4
      in if parser = None then (Inl ''cannot init parser'', w5) else
      let (frame, w6) = extern Ev_AvFrameAlloc (AvFrameAlloc eng) w5
      in if frame = None then (Inl ''cannot allocate frame'', w6) else
      let (pkt, w7) = extern Ev_AvPacketAlloc (AvPacketAlloc eng) w6
      in if pkt = None then (Inl ''cannot allocate packet'', w7) else
      let w8 = extern_unit Ev_AvInitPacket (AvInitPacket eng pkt) w7;
          w9 = extern_unit Ev_SetFlags
                 (PacketSetFlags eng pkt
                    (PacketFlags eng (native w8) pkt OR AV_CODEC_FLAG_TRUNCATED eng)) w8
      in if cpr \<noteq> H264 eng \<and> cpr \<noteq> H265 eng then (Inl ''unsupported compression'', w9) else
      if pxlFmt \<noteq> PixelFormatRGB eng \<and> pxlFmt \<noteq> PixelFormatBGR
      then (Inl ''unsupported pixel format'', w9) else
      let converterPxlFmt =
            (if pxlFmt = PixelFormatRGB eng then AV_PIX_FMT_RGB24 eng else av_PIX_FMT_BGR24)
      in case newConverter eng converterPxlFmt w9 of
           (Inl err, w10) \<Rightarrow> (Inl err, w10)
         | (Inr conv, w10) \<Rightarrow>
             (Inr \<lparr>d_context = ctx, d_parser = parser, d_frame = frame, d_pkt = pkt,
                   d_converter = conv\<rparr>, w10))"

definition parse :: "'n engine \<Rightarrow> Decoder \<Rightarrow> byte list \<Rightarrow> int \<Rightarrow> 'n world \<Rightarrow> int \<times> 'n world" where
  "parse eng h data bs w =
     extern Ev_AvParserParse2
       (AvParserParse2 eng (d_context h) (d_parser h) (d_pkt h) data bs 0 0 (AV_NOPTS_VALUE eng)) w"

definition isFrameAvailable :: "'n engine \<Rightarrow> Decoder \<Rightarrow> 'n world \<Rightarrow> bool" where
  "isFrameAvailable eng h w \<longleftrightarrow> PacketSize eng (native w) (d_pkt h) > 0"

definition decodeFrame :: "'n engine \<Rightarrow> Decoder \<Rightarrow> 'n world \<Rightarrow> (error + cptr) \<times> 'n world" where
  "decodeFrame eng h w =
     (case extern Ev_AvcodecDecodeVideo2
             (AvcodecDecodeVideo2 eng (d_context h) (d_frame h) (d_pkt h)) w of
        ((nread, gotPicture), w1) \<Rightarrow>
          if nread < 0 \<or> gotPicture = 0 then (Inl ''error decoding frame'', w1)
          else (Inr (d_frame h), w1))"

text \<open>
  \<^verbatim>\<open>decodeFrameImpl\<close> returns \<^verbatim>\<open>(*Frame, int, bool, error)\<close>. The deferred
  \<^verbatim>\<open>AvFree(buffer)\<close> runs when the function returns after the allocation.
\<close>

definition decodeFrameImpl ::
  "'n engine \<Rightarrow> Decoder \<Rightarrow> byte list \<Rightarrow> 'n world
     \<Rightarrow> ((Frame option \<times> int \<times> bool \<times> error option) \<times> 'n world) go" where
  "decodeFrameImpl eng h data w =
     (let size = int (length data);
          (nread, w1) = parse eng h data size w
      in if \<not> isFrameAvailable eng h w1 then Ret ((None, nread, False, None), w1) else
      case decodeFrame eng h w1 of
        (Inl err, w2) \<Rightarrow> Ret ((None, nread, True, Some err), w2)
      | (Inr frame, w2) \<Rightarrow>
          (let width = ContextWidth eng (native w2) (d_context h);
               height = ContextHeight eng (native w2) (d_context h);
               (predicted, w3) = PredictSize eng (d_converter h) width height w2;
               bufferSize = uintptr predicted;
               (buffer, w4) = extern Ev_AvMalloc (AvMalloc eng bufferSize) w3
           in case Convert eng (d_converter h) (d_context h) frame buffer w4 of
                (Inl err, w5) \<Rightarrow>
                  Ret ((None, nread, True, Some err),
                       extern_unit (Ev_AvFree buffer) (AvFree eng buffer) w5)
              | (Inr rgbframe, w5) \<Rightarrow>
                  (case newFrame eng rgbframe w5 of
                     Panic \<Rightarrow> Panic
                   | Ret (f, w6) \<Rightarrow>
                       Ret ((Some f, nread, True, None),
                            extern_unit (Ev_AvFree buffer) (AvFree eng buffer) w6))))"

text \<open>
  The loop of \<^verbatim>\<open>Decode\<close>, from the state it has at the head of an iteration: the frames
  appended so far and the rest of the chunk. \<^verbatim>\<open>data[nread:]\<close> panics unless
  \<open>0 \<le> nread \<le> len(data)\<close>. A run of the loop that never ends has the value \<open>None\<close>.
\<close>

partial_function (option) Decode_loop ::
  "'n engine \<Rightarrow> Decoder \<Rightarrow> Frame list \<Rightarrow> byte list \<Rightarrow> 'n world
     \<Rightarrow> ((Frame list \<times> error option) \<times> 'n world) go option" where
  "Decode_loop eng h frames data w =
     (if length data > 0 then
        (case decodeFrameImpl eng h data w of
           Panic \<Rightarrow> Some Panic
         | Ret ((frame, nread, available, err), w') \<Rightarrow>
             if err \<noteq> None \<and> nread < 0 then Some (Ret (([], err), w'))
             else
               let frames' =
                     (if available \<and> frame \<noteq> None then frames @ [the frame] else frames)
               in if nread < 0 \<or> int (length data) < nread then Some Panic
                  else Decode_loop eng h frames' (drop (nat nread) data) w')
      else Some (Ret ((frames, None), w)))"

declare Decode_loop.simps [code]

definition Decode ::
  "'n engine \<Rightarrow> Decoder \<Rightarrow> byte list \<Rightarrow> 'n world
     \<Rightarrow> ((Frame list \<times> error option) \<times> 'n world) go option" where
  "Decode eng h data w = Decode_loop eng h [] data w"

definition Close :: "'n engine \<Rightarrow> Decoder \<Rightarrow> 'n world \<Rightarrow> 'n world" where
  "Close eng h w =
     (let w1 = converter_Close eng (d_converter h) w;
          w2 = extern_unit (Ev_AvParserClose (d_parser h)) (AvParserClose eng (d_parser h)) w1;
          w3 = extern_unit (Ev_AvcodecClose (d_context h)) (AvcodecClose eng (d_context h)) w2;
          w4 = extern_unit (Ev_AvFree (d_context h)) (AvFree eng (d_context h)) w3;
          w5 = extern_unit (Ev_AvFrameFree (d_frame h)) (AvFrameFree eng (d_frame h)) w4
      in extern_unit (Ev_AvFreePacket (d_pkt h)) (AvFreePacket eng (d_pkt h)) w5)"

section \<open>Decoding in chunks\<close>



text \<open>The part of \<^verbatim>\<open>decodeFrameImpl\<close> that follows the call of the parser.\<close>

definition after_parse ::
  "'n engine \<Rightarrow> Decoder \<Rightarrow> int \<Rightarrow> 'n world
     \<Rightarrow> ((Frame option \<times> int \<times> bool \<times> error option) \<times> 'n world) go" where
  "after_parse eng h nread w1 =
     (if \<not> isFrameAvailable eng h w1 then Ret ((None, nread, False, None), w1) else
      case decodeFrame eng h w1 of
        (Inl err, w2) \<Rightarrow> Ret ((None, nread, True, Some err), w2)
      | (Inr frame, w2) \<Rightarrow>
          (let width = ContextWidth eng (native w2) (d_context h);
               height = ContextHeight eng (native w2) (d_context h);
               (predicted, w3) = PredictSize eng (d_converter h) width height w2;
               bufferSize = uintptr predicted;
               (buffer, w4) = extern Ev_AvMalloc (AvMalloc eng bufferSize) w3
           in case Convert eng (d_converter h) (d_context h) frame buffer w4 of
                (Inl err, w5) \<Rightarrow>
                  Ret ((None, nread, True, Some err),
                       extern_unit (Ev_AvFree buffer) (AvFree eng buffer) w5)
              | (Inr rgbframe, w5) \<Rightarrow>
                  (case newFrame eng rgbframe w5 of
                     Panic \<Rightarrow> Panic
                   | Ret (f, w6) \<Rightarrow>
                       Ret ((Some f, nread, True, None),
                            extern_unit (Ev_AvFree buffer) (AvFree eng buffer) w6))))"

text \<open>
  Two worlds are the same to the Go code when they differ in the list of native calls only.
  \<open>shift t w\<close> is \<open>w\<close> with the calls \<open>t\<close> made before it.
\<close>

definition shift :: "event list \<Rightarrow> 'n world \<Rightarrow> 'n world" where
  "shift t w = w\<lparr>trace := t @ trace w\<rparr>"

definition same :: "'n world \<Rightarrow> 'n world \<Rightarrow> bool" where
  "same w w' \<longleftrightarrow> native w = native w' \<and> heap w = heap w'"

definition same_result :: "('a \<times> 'n world) go \<Rightarrow> ('a \<times> 'n world) go \<Rightarrow> bool" where
  "same_result y y' \<longleftrightarrow>
     (case y of
        Panic \<Rightarrow> y' = Panic
      | Ret (r, w) \<Rightarrow> (case y' of Panic \<Rightarrow> False | Ret (r', w') \<Rightarrow> r = r' \<and> same w w'))"

section \<open>Scans that find no coded unit\<close>



section \<open>Native resources in the list of calls\<close>

text \<open>
  The pointers that a list of native calls obtained from an allocating function, and the
  pointers it handed to a function that frees or closes (the six functions that
  \<^verbatim>\<open>Close\<close> and the deferred call in \<^verbatim>\<open>decodeFrameImpl\<close> use).
\<close>

definition release_of :: "event \<Rightarrow> cptr list" where
  "release_of e =
     (case e of
        Ev_AvFree p \<Rightarrow> [p]
      | Ev_SwsFreecontext p \<Rightarrow> [p]
      | Ev_AvParserClose p \<Rightarrow> [p]
      | Ev_AvcodecClose p \<Rightarrow> [p]
      | Ev_AvFrameFree p \<Rightarrow> [p]
      | Ev_AvFreePacket p \<Rightarrow> [p]
      | _ \<Rightarrow> [])"

definition acquire_of :: "event \<Rightarrow> cptr list" where
  "acquire_of e =
     (case e of
        Ev_AvcodecAllocContext3 (Some p) \<Rightarrow> [Some p]
      | Ev_AvParserInit (Some p) \<Rightarrow> [Some p]
      | Ev_AvFrameAlloc (Some p) \<Rightarrow> [Some p]
      | Ev_AvPacketAlloc (Some p) \<Rightarrow> [Some p]
      | Ev_AvMalloc (Some p) \<Rightarrow> [Some p]
      | Ev_SwsGetcontext (Some p) \<Rightarrow> [Some p]
      | _ \<Rightarrow> [])"

definition released :: "event list \<Rightarrow> cptr list" where
  "released evs = concat (map release_of evs)"

definition acquired :: "event list \<Rightarrow> cptr list" where
  "acquired evs = concat (map acquire_of evs)"

text \<open>A step from one world to another that leaves the Go heap alone and frees nothing.\<close>

definition quiet :: "'n world \<Rightarrow> 'n world \<Rightarrow> bool" where
  "quiet w w' \<longleftrightarrow> heap w' = heap w \<and> (\<exists>evs. trace w' = trace w @ evs \<and> released evs = [])"

section \<open>Frames in the Go heap\<close>





text \<open>The caller writes the byte \<open>v\<close> at index \<open>k\<close> through the slice at address
  \<open>a\<close>.\<close>

definition poke :: "byte list list \<Rightarrow> nat \<Rightarrow> nat \<Rightarrow> byte \<Rightarrow> byte list list" where
  "poke hp a k v = hp[a := (hp ! a)[k := v]]"

section \<open>A small engine to run the code on\<close>

text \<open>
  A native library small enough to evaluate. A chunk is read one byte at a time, and the
  byte says what the library reports: \<open>1\<close> is a coded unit that decodes to a picture of
  2 by 1 pixels, \<open>2\<close> a unit that fails to decode, \<open>3\<close> a unit that fails to decode
  with the parser reporting \<open>- 1\<close> bytes consumed, \<open>4\<close> a byte at which the parser
  reports no unit and nothing consumed, and every other byte is consumed without completing a
  unit. Every byte of picture number \<open>k\<close> has the value \<open>k\<close>. Pointers are handed out in
  sequence.
\<close>

record fake =
  f_next :: nat
  f_pkt :: int
  f_unit :: byte
  f_pics :: byte

definition fake_alloc :: "fake \<Rightarrow> cptr \<times> fake" where
  "fake_alloc n = (Some (f_next n), n\<lparr>f_next := Suc (f_next n)\<rparr>)"

definition fake_parse :: "byte list \<Rightarrow> fake \<Rightarrow> int \<times> fake" where
  "fake_parse data n =
     (case data of
        [] \<Rightarrow> (0, n\<lparr>f_pkt := 0\<rparr>)
      | b # _ \<Rightarrow>
          if b = 1 \<or> b = 2 then (1, n\<lparr>f_pkt := 1, f_unit := b\<rparr>)
          else if b = 3 then (- 1, n\<lparr>f_pkt := 1, f_unit := b\<rparr>)
          else if b = 4 then (0, n\<lparr>f_pkt := 0\<rparr>)
          else (1, n\<lparr>f_pkt := 0\<rparr>))"

definition fake_decode :: "fake \<Rightarrow> (int \<times> int) \<times> fake" where
  "fake_decode n =
     (if f_unit n = 1 then ((1, 1), n\<lparr>f_pics := f_pics n + 1\<rparr>) else ((- 1, 0), n))"

definition fake_engine :: "fake engine" where
  "fake_engine = \<lparr>
     AV_PIX_FMT_RGB24 = 2,
     AV_CODEC_ID_H264 = 27,
     AV_CODEC_ID_H265 = 173,
     AV_CODEC_FLAG_TRUNCATED = 65536,
     AV_NOPTS_VALUE = - (2 ^ 63),
     SWS_BILINEAR = 2,
     AvcodecRegisterAll = (\<lambda>n. n),
     AvcodecFindDecoder = (\<lambda>cpr n. (if cpr = 0 then None else Some 1, n)),
     AvcodecAllocContext3 = (\<lambda>codec. fake_alloc),
     AvcodecOpen2 = (\<lambda>ctx codec opts n. (0, n)),
     AvParserInit = (\<lambda>cpr. fake_alloc),
     AvFrameAlloc = fake_alloc,
     AvPacketAlloc = fake_alloc,
     AvInitPacket = (\<lambda>pkt n. n),
     PacketFlags = (\<lambda>n pkt. 0),
     PacketSetFlags = (\<lambda>pkt fl n. n),
     PacketSize = (\<lambda>n pkt. f_pkt n),
     AvParserParse2 = (\<lambda>ctx parser pkt data bs pts dts pos. fake_parse data),
     AvcodecDecodeVideo2 = (\<lambda>ctx frame pkt. fake_decode),
     ContextWidth = (\<lambda>n ctx. 2),
     ContextHeight = (\<lambda>n ctx. 1),
     ContextPixFmt = (\<lambda>n ctx. 0),
     AvpictureFill = (\<lambda>pic buf fmt w0 h0 n. (3 * w0 * h0, n)),
     AvMalloc = (\<lambda>size. fake_alloc),
     AvFree = (\<lambda>p n. n),
     SwsGetcontext = (\<lambda>sw sh sf dw dh df flags f1 f2 p. fake_alloc),
     SwsGetcachedcontext = (\<lambda>c sw sh sf dw dh df flags f1 f2 p n. (c, n)),
     AvSetFrame = (\<lambda>frame w0 h0 fmt n. (None, n)),
     SwsScale2 = (\<lambda>c sd sl y h0 dd dl n. (h0, n)),
     FrameWidth = (\<lambda>n frame. 2),
     FrameHeight = (\<lambda>n frame. 1),
     FrameLinesize = (\<lambda>n frame i. 6),
     FrameData = (\<lambda>n frame i. Some 0),
     CMemory = (\<lambda>n p i. f_pics n),
     SwsFreecontext = (\<lambda>p n. n),
     AvParserClose = (\<lambda>p n. n),
     AvcodecClose = (\<lambda>p n. n),
     AvFrameFree = (\<lambda>p n. n),
     AvFreePacket = (\<lambda>p n. n)\<rparr>"

text \<open>The world before anything is called, the decoder that \<open>New\<close> builds in it for RGB
  and H.264, and the world with the trace cleared after that.\<close>

definition fake_start :: "fake world" where
  "fake_start = \<lparr>native = \<lparr>f_next = 10, f_pkt = 0, f_unit = 0, f_pics = 0\<rparr>, heap = [], trace = []\<rparr>"

definition fake_decoder :: Decoder where
  "fake_decoder = \<lparr>d_context = Some 10, d_parser = Some 11, d_frame = Some 12, d_pkt = Some 13,
     d_converter = \<lparr>c_framergb = Some 14, c_context = None, c_pixFmt = 2\<rparr>\<rparr>"

definition fake_ready :: "fake world" where
  "fake_ready = \<lparr>native = \<lparr>f_next = 15, f_pkt = 0, f_unit = 0, f_pics = 0\<rparr>, heap = [], trace = []\<rparr>"

text \<open>A world of the small engine in which nothing has been parsed or decoded: the next
  pointer to hand out and the native calls made so far.\<close>

definition fake_at :: "nat \<Rightarrow> event list \<Rightarrow> fake world" where
  "fake_at n evs =
     \<lparr>native = \<lparr>f_next = n, f_pkt = 0, f_unit = 0, f_pics = 0\<rparr>, heap = [], trace = evs\<rparr>"

text \<open>The small engine with a scaler that cannot build a context:
  \<^verbatim>\<open>SwsGetcontext\<close> returns \<^verbatim>\<open>nil\<close>.\<close>

definition no_scaler_engine :: "fake engine" where
  "no_scaler_engine =
     fake_engine\<lparr>SwsGetcontext := (\<lambda>sw sh sf dw dh df flags f1 f2 p n. (None, n))\<rparr>"

text \<open>The world after \<open>Decode\<close> of the chunk \<open>[1, 0, 1]\<close> in \<open>fake_ready\<close>.\<close>

definition fake_two :: "fake world" where
  "fake_two = \<lparr>native = \<lparr>f_next = 19, f_pkt = 1, f_unit = 1, f_pics = 2\<rparr>,
     heap = [[1, 1, 1, 1, 1, 1], [2, 2, 2, 2, 2, 2]],
     trace = [Ev_AvParserParse2 1, Ev_AvcodecDecodeVideo2 (1, 1), Ev_AvpictureFill 6,
       Ev_AvMalloc (Some 15), Ev_SwsGetcontext (Some 16), Ev_AvSetFrame None,
       Ev_AvpictureFill 6, Ev_SwsScale2 1, Ev_AvFree (Some 15), Ev_AvParserParse2 1,
       Ev_AvParserParse2 1, Ev_AvcodecDecodeVideo2 (1, 1), Ev_AvpictureFill 6,
       Ev_AvMalloc (Some 17), Ev_SwsGetcontext (Some 18), Ev_AvSetFrame None,
       Ev_AvpictureFill 6, Ev_SwsScale2 1, Ev_AvFree (Some 17)]\<rparr>"





text \<open>What a call of \<open>Decode\<close> returned, without the world.\<close>

definition returned :: "('a \<times> 'n world) go option \<Rightarrow> 'a go option" where
  "returned r = map_option (map_go fst) r"

section \<open>The run of \<open>New\<close> on the small engine\<close>

lemma fake_New:
  "New fake_engine 2 27 fake_start =
     (Inr fake_decoder, fake_ready\<lparr>trace :=
        [Ev_AvcodecRegisterAll, Ev_AvcodecFindDecoder (Some 1),
         Ev_AvcodecAllocContext3 (Some 10), Ev_AvcodecOpen2 0, Ev_AvParserInit (Some 11),
         Ev_AvFrameAlloc (Some 12), Ev_AvPacketAlloc (Some 13), Ev_AvInitPacket, Ev_SetFlags,
         Ev_AvFrameAlloc (Some 14)]\<rparr>)"
  by code_simp

section \<open>Construction\<close>

lemma quiet_refl: "quiet w w"
  by (simp add: quiet_def released_def)

lemma quiet_trans: "quiet w1 w2 \<Longrightarrow> quiet w2 w3 \<Longrightarrow> quiet w1 w3"
  by (auto simp: quiet_def released_def)

lemma quiet_extern: "extern ev f w = (r, w') \<Longrightarrow> release_of (ev r) = [] \<Longrightarrow> quiet w w'"
  by (auto simp: quiet_def extern_def released_def split: prod.splits)

lemma quiet_extern_unit: "release_of ev = [] \<Longrightarrow> quiet w (extern_unit ev f w)"
  by (simp add: quiet_def extern_unit_def released_def)

text \<open>\<open>New\<close>, with a name for the result of each native call it makes.\<close>

lemma New_unfold:
  assumes
    "extern_unit Ev_AvcodecRegisterAll (AvcodecRegisterAll eng) w = w1"
    "extern Ev_AvcodecFindDecoder (AvcodecFindDecoder eng cpr) w1 = (codec, w2)"
    "extern Ev_AvcodecAllocContext3 (AvcodecAllocContext3 eng codec) w2 = (ctx, w3)"
    "extern Ev_AvcodecOpen2 (AvcodecOpen2 eng ctx codec None) w3 = (opened, w4)"
    "extern Ev_AvParserInit (AvParserInit eng cpr) w4 = (parser, w5)"
    "extern Ev_AvFrameAlloc (AvFrameAlloc eng) w5 = (frame, w6)"
    "extern Ev_AvPacketAlloc (AvPacketAlloc eng) w6 = (pkt, w7)"
    "extern_unit Ev_AvInitPacket (AvInitPacket eng pkt) w7 = w8"
    "extern_unit Ev_SetFlags
       (PacketSetFlags eng pkt (PacketFlags eng (native w8) pkt OR AV_CODEC_FLAG_TRUNCATED eng))
       w8 = w9"
    "extern Ev_AvFrameAlloc (AvFrameAlloc eng) w9 = (framergb, w10)"
  shows "New eng pxlFmt cpr w =
     (if codec = None then (Inl ''cannot find decoder'', w2)
      else if ctx = None then (Inl ''cannot allocate context'', w3)
      else if opened < 0 then (Inl ''cannot open content'', w4)
      else if parser = None then (Inl ''cannot init parser'', w5)
      else if frame = None then (Inl ''cannot allocate frame'', w6)
      else if pkt = None then (Inl ''cannot allocate packet'', w7)
      else if cpr \<noteq> H264 eng \<and> cpr \<noteq> H265 eng then (Inl ''unsupported compression'', w9)
      else if pxlFmt \<noteq> PixelFormatRGB eng \<and> pxlFmt \<noteq> PixelFormatBGR
        then (Inl ''unsupported pixel format'', w9)
      else if framergb = None then (Inl ''cannot allocate frame'', w10)
      else (Inr \<lparr>d_context = ctx, d_parser = parser, d_frame = frame, d_pkt = pkt,
              d_converter = \<lparr>c_framergb = framergb, c_context = None,
                c_pixFmt = (if pxlFmt = PixelFormatRGB eng then AV_PIX_FMT_RGB24 eng
                            else av_PIX_FMT_BGR24)\<rparr>\<rparr>, w10))"
  unfolding New_def Let_def newConverter_def assms prod.case by simp

lemma New_steps:
  obtains w1 codec w2 ctx w3 opened w4 parser w5 frame w6 pkt w7 w8 w9 framergb w10 where
    "extern_unit Ev_AvcodecRegisterAll (AvcodecRegisterAll eng) w = w1"
    "extern Ev_AvcodecFindDecoder (AvcodecFindDecoder eng cpr) w1 = (codec, w2)"
    "extern Ev_AvcodecAllocContext3 (AvcodecAllocContext3 eng codec) w2 = (ctx, w3)"
    "extern Ev_AvcodecOpen2 (AvcodecOpen2 eng ctx codec None) w3 = (opened, w4)"
    "extern Ev_AvParserInit (AvParserInit eng cpr) w4 = (parser, w5)"
    "extern Ev_AvFrameAlloc (AvFrameAlloc eng) w5 = (frame, w6)"
    "extern Ev_AvPacketAlloc (AvPacketAlloc eng) w6 = (pkt, w7)"
    "extern_unit Ev_AvInitPacket (AvInitPacket eng pkt) w7 = w8"
    "extern_unit Ev_SetFlags
       (PacketSetFlags eng pkt (PacketFlags eng (native w8) pkt OR AV_CODEC_FLAG_TRUNCATED eng))
       w8 = w9"
    "extern Ev_AvFrameAlloc (AvFrameAlloc eng) w9 = (framergb, w10)"
  by (metis surj_pair)

text \<open>
  Claim C4, as the code has it. On every failure path of \<open>New\<close> no \<open>Decoder\<close> is
  returned with the error, and nothing is released: the native calls made by the call
  contain no call of a function that frees or closes, so every resource allocated earlier
  in the call stays allocated. The Go heap is unchanged.
\<close>

theorem New_failure_releases_nothing:
  assumes "New eng pxlFmt cpr w = (Inl err, w')"
  shows "heap w' = heap w \<and> (\<exists>evs. trace w' = trace w @ evs \<and> released evs = [])"
proof -
  obtain w1 codec w2 ctx w3 opened w4 parser w5 frame w6 pkt w7 w8 w9 framergb w10 where s:
    "extern_unit Ev_AvcodecRegisterAll (AvcodecRegisterAll eng) w = w1"
    "extern Ev_AvcodecFindDecoder (AvcodecFindDecoder eng cpr) w1 = (codec, w2)"
    "extern Ev_AvcodecAllocContext3 (AvcodecAllocContext3 eng codec) w2 = (ctx, w3)"
    "extern Ev_AvcodecOpen2 (AvcodecOpen2 eng ctx codec None) w3 = (opened, w4)"
    "extern Ev_AvParserInit (AvParserInit eng cpr) w4 = (parser, w5)"
    "extern Ev_AvFrameAlloc (AvFrameAlloc eng) w5 = (frame, w6)"
    "extern Ev_AvPacketAlloc (AvPacketAlloc eng) w6 = (pkt, w7)"
    "extern_unit Ev_AvInitPacket (AvInitPacket eng pkt) w7 = w8"
    "extern_unit Ev_SetFlags
       (PacketSetFlags eng pkt (PacketFlags eng (native w8) pkt OR AV_CODEC_FLAG_TRUNCATED eng))
       w8 = w9"
    "extern Ev_AvFrameAlloc (AvFrameAlloc eng) w9 = (framergb, w10)"
    by (rule New_steps)
  have q1: "quiet w w1"
    using s(1) quiet_extern_unit [of Ev_AvcodecRegisterAll w] by (auto simp: release_of_def)
  have q2: "quiet w w2"
    using quiet_extern [OF s(2)] q1 by (auto simp: release_of_def intro: quiet_trans)
  have q3: "quiet w w3"
    using quiet_extern [OF s(3)] q2 by (auto simp: release_of_def intro: quiet_trans)
  have q4: "quiet w w4"
    using quiet_extern [OF s(4)] q3 by (auto simp: release_of_def intro: quiet_trans)
  have q5: "quiet w w5"
    using quiet_extern [OF s(5)] q4 by (auto simp: release_of_def intro: quiet_trans)
  have q6: "quiet w w6"
    using quiet_extern [OF s(6)] q5 by (auto simp: release_of_def intro: quiet_trans)
  have q7: "quiet w w7"
    using quiet_extern [OF s(7)] q6 by (auto simp: release_of_def intro: quiet_trans)
  have q8: "quiet w w8"
    using s(8) quiet_extern_unit [of Ev_AvInitPacket w7] q7
    by (auto simp: release_of_def intro: quiet_trans)
  have q9: "quiet w w9"
    using s(9) quiet_extern_unit [of Ev_SetFlags w8] q8
    by (auto simp: release_of_def intro: quiet_trans)
  have q10: "quiet w w10"
    using quiet_extern [OF s(10)] q9 by (auto simp: release_of_def intro: quiet_trans)
  have "quiet w w'"
    using assms q2 q3 q4 q5 q6 q7 q9 q10 unfolding New_unfold [OF s]
    by (simp split: if_splits)
  then show ?thesis by (simp add: quiet_def)
qed

text \<open>The same at the small engine, for a pixel format that is neither RGB nor BGR.\<close>

theorem New_failure_releases_nothing_witness:
  "New fake_engine 7 27 fake_start =
     (Inl ''unsupported pixel format'',
      fake_start\<lparr>native := \<lparr>f_next = 14, f_pkt = 0, f_unit = 0, f_pics = 0\<rparr>,
        trace := [Ev_AvcodecRegisterAll, Ev_AvcodecFindDecoder (Some 1),
          Ev_AvcodecAllocContext3 (Some 10), Ev_AvcodecOpen2 0, Ev_AvParserInit (Some 11),
          Ev_AvFrameAlloc (Some 12), Ev_AvPacketAlloc (Some 13), Ev_AvInitPacket,
          Ev_SetFlags]\<rparr>) \<and>
   heap (snd (New fake_engine 7 27 fake_start)) = heap fake_start \<and>
   released (trace (snd (New fake_engine 7 27 fake_start))) = []"
proof -
  have run: "New fake_engine 7 27 fake_start =
     (Inl ''unsupported pixel format'',
      fake_start\<lparr>native := \<lparr>f_next = 14, f_pkt = 0, f_unit = 0, f_pics = 0\<rparr>,
        trace := [Ev_AvcodecRegisterAll, Ev_AvcodecFindDecoder (Some 1),
          Ev_AvcodecAllocContext3 (Some 10), Ev_AvcodecOpen2 0, Ev_AvParserInit (Some 11),
          Ev_AvFrameAlloc (Some 12), Ev_AvPacketAlloc (Some 13), Ev_AvInitPacket,
          Ev_SetFlags]\<rparr>)"
    by code_simp
  from New_failure_releases_nothing [OF run] run show ?thesis
    by (auto simp: fake_start_def)
qed

text \<open>
  Claim C4 as stated fails. With a pixel format that is neither RGB nor BGR, \<open>New\<close> fails
  after it has allocated the codec context, the parser, the frame and the packet, and it
  has released none of them when it returns the error.
\<close>

theorem New_failure_counterexample:
  "fst (New fake_engine 7 27 fake_start) = Inl ''unsupported pixel format'' \<and>
   acquired (trace (snd (New fake_engine 7 27 fake_start))) =
     [Some 10, Some 11, Some 12, Some 13] \<and>
   released (trace (snd (New fake_engine 7 27 fake_start))) = []"
  by code_simp

text \<open>
  Claim C8, as the code has it. For every compression value other than H264 and H265,
  \<open>New\<close> returns no \<open>Decoder\<close> and an error. The compression is tested after the
  decoder lookup, the allocation and opening of the context, the parser, the frame and the
  packet. With a name for what each of these native calls returns, the result of \<open>New\<close>
  is the error of the first of these steps that fails, in the world that step left, and it
  is \<^verbatim>\<open>unsupported compression\<close>, after the packet flags are set, exactly when all
  of them succeeded.
\<close>

theorem New_other_compression:
  assumes "cpr \<noteq> H264 eng" and "cpr \<noteq> H265 eng"
    and "extern_unit Ev_AvcodecRegisterAll (AvcodecRegisterAll eng) w = w1"
    and "extern Ev_AvcodecFindDecoder (AvcodecFindDecoder eng cpr) w1 = (codec, w2)"
    and "extern Ev_AvcodecAllocContext3 (AvcodecAllocContext3 eng codec) w2 = (ctx, w3)"
    and "extern Ev_AvcodecOpen2 (AvcodecOpen2 eng ctx codec None) w3 = (opened, w4)"
    and "extern Ev_AvParserInit (AvParserInit eng cpr) w4 = (parser, w5)"
    and "extern Ev_AvFrameAlloc (AvFrameAlloc eng) w5 = (frame, w6)"
    and "extern Ev_AvPacketAlloc (AvPacketAlloc eng) w6 = (pkt, w7)"
    and "extern_unit Ev_AvInitPacket (AvInitPacket eng pkt) w7 = w8"
    and "extern_unit Ev_SetFlags
           (PacketSetFlags eng pkt (PacketFlags eng (native w8) pkt OR AV_CODEC_FLAG_TRUNCATED eng))
           w8 = w9"
  shows "New eng pxlFmt cpr w =
     (if codec = None then (Inl ''cannot find decoder'', w2)
      else if ctx = None then (Inl ''cannot allocate context'', w3)
      else if opened < 0 then (Inl ''cannot open content'', w4)
      else if parser = None then (Inl ''cannot init parser'', w5)
      else if frame = None then (Inl ''cannot allocate frame'', w6)
      else if pkt = None then (Inl ''cannot allocate packet'', w7)
      else (Inl ''unsupported compression'', w9))"
proof -
  obtain framergb w10 where "extern Ev_AvFrameAlloc (AvFrameAlloc eng) w9 = (framergb, w10)"
    by (metis surj_pair)
  from New_unfold [OF assms(3-11) this] assms(1,2) show ?thesis by simp
qed

text \<open>The same at the small engine: the value \<open>5\<close>, for which every step before the
  test succeeds, and the value \<open>0\<close>, for which the lookup finds no decoder.\<close>

theorem New_other_compression_witness:
  "(5 :: int) \<noteq> H264 fake_engine \<and> (5 :: int) \<noteq> H265 fake_engine \<and>
   New fake_engine 2 5 fake_start =
     (Inl ''unsupported compression'',
      fake_at 14 [Ev_AvcodecRegisterAll, Ev_AvcodecFindDecoder (Some 1),
        Ev_AvcodecAllocContext3 (Some 10), Ev_AvcodecOpen2 0, Ev_AvParserInit (Some 11),
        Ev_AvFrameAlloc (Some 12), Ev_AvPacketAlloc (Some 13), Ev_AvInitPacket, Ev_SetFlags]) \<and>
   (0 :: int) \<noteq> H264 fake_engine \<and> (0 :: int) \<noteq> H265 fake_engine \<and>
   New fake_engine 2 0 fake_start =
     (Inl ''cannot find decoder'', fake_at 10 [Ev_AvcodecRegisterAll, Ev_AvcodecFindDecoder None])"
proof -
  have a: "(5 :: int) \<noteq> H264 fake_engine" "(5 :: int) \<noteq> H265 fake_engine"
    and b: "(0 :: int) \<noteq> H264 fake_engine" "(0 :: int) \<noteq> H265 fake_engine"
    by (simp_all add: H264_def H265_def fake_engine_def)
  have s1: "extern_unit Ev_AvcodecRegisterAll (AvcodecRegisterAll fake_engine) fake_start =
      fake_at 10 [Ev_AvcodecRegisterAll]"
    by code_simp
  have s2: "extern Ev_AvcodecFindDecoder (AvcodecFindDecoder fake_engine 5)
        (fake_at 10 [Ev_AvcodecRegisterAll]) =
      (Some 1, fake_at 10 [Ev_AvcodecRegisterAll, Ev_AvcodecFindDecoder (Some 1)])"
    by code_simp
  have s3: "extern Ev_AvcodecAllocContext3 (AvcodecAllocContext3 fake_engine (Some 1))
        (fake_at 10 [Ev_AvcodecRegisterAll, Ev_AvcodecFindDecoder (Some 1)]) =
      (Some 10, fake_at 11 [Ev_AvcodecRegisterAll, Ev_AvcodecFindDecoder (Some 1),
         Ev_AvcodecAllocContext3 (Some 10)])"
    by code_simp
  have s4: "extern Ev_AvcodecOpen2 (AvcodecOpen2 fake_engine (Some 10) (Some 1) None)
        (fake_at 11 [Ev_AvcodecRegisterAll, Ev_AvcodecFindDecoder (Some 1),
           Ev_AvcodecAllocContext3 (Some 10)]) =
      (0, fake_at 11 [Ev_AvcodecRegisterAll, Ev_AvcodecFindDecoder (Some 1),
         Ev_AvcodecAllocContext3 (Some 10), Ev_AvcodecOpen2 0])"
    by code_simp
  have s5: "extern Ev_AvParserInit (AvParserInit fake_engine 5)
        (fake_at 11 [Ev_AvcodecRegisterAll, Ev_AvcodecFindDecoder (Some 1),
           Ev_AvcodecAllocContext3 (Some 10), Ev_AvcodecOpen2 0]) =
      (Some 11, fake_at 12 [Ev_AvcodecRegisterAll, Ev_AvcodecFindDecoder (Some 1),
         Ev_AvcodecAllocContext3 (Some 10), Ev_AvcodecOpen2 0, Ev_AvParserInit (Some 11)])"
    by code_simp
  have s6: "extern Ev_AvFrameAlloc (AvFrameAlloc fake_engine)
        (fake_at 12 [Ev_AvcodecRegisterAll, Ev_AvcodecFindDecoder (Some 1),
           Ev_AvcodecAllocContext3 (Some 10), Ev_AvcodecOpen2 0, Ev_AvParserInit (Some 11)]) =
      (Some 12, fake_at 13 [Ev_AvcodecRegisterAll, Ev_AvcodecFindDecoder (Some 1),
         Ev_AvcodecAllocContext3 (Some 10), Ev_AvcodecOpen2 0, Ev_AvParserInit (Some 11),
         Ev_AvFrameAlloc (Some 12)])"
    by code_simp
  have s7: "extern Ev_AvPacketAlloc (AvPacketAlloc fake_engine)
        (fake_at 13 [Ev_AvcodecRegisterAll, Ev_AvcodecFindDecoder (Some 1),
           Ev_AvcodecAllocContext3 (Some 10), Ev_AvcodecOpen2 0, Ev_AvParserInit (Some 11),
           Ev_AvFrameAlloc (Some 12)]) =
      (Some 13, fake_at 14 [Ev_AvcodecRegisterAll, Ev_AvcodecFindDecoder (Some 1),
         Ev_AvcodecAllocContext3 (Some 10), Ev_AvcodecOpen2 0, Ev_AvParserInit (Some 11),
         Ev_AvFrameAlloc (Some 12), Ev_AvPacketAlloc (Some 13)])"
    by code_simp
  have s8: "extern_unit Ev_AvInitPacket (AvInitPacket fake_engine (Some 13))
        (fake_at 14 [Ev_AvcodecRegisterAll, Ev_AvcodecFindDecoder (Some 1),
           Ev_AvcodecAllocContext3 (Some 10), Ev_AvcodecOpen2 0, Ev_AvParserInit (Some 11),
           Ev_AvFrameAlloc (Some 12), Ev_AvPacketAlloc (Some 13)]) =
      fake_at 14 [Ev_AvcodecRegisterAll, Ev_AvcodecFindDecoder (Some 1),
         Ev_AvcodecAllocContext3 (Some 10), Ev_AvcodecOpen2 0, Ev_AvParserInit (Some 11),
         Ev_AvFrameAlloc (Some 12), Ev_AvPacketAlloc (Some 13), Ev_AvInitPacket]"
    by code_simp
  have s9: "extern_unit Ev_SetFlags
        (PacketSetFlags fake_engine (Some 13)
           (PacketFlags fake_engine
              (native (fake_at 14 [Ev_AvcodecRegisterAll, Ev_AvcodecFindDecoder (Some 1),
                 Ev_AvcodecAllocContext3 (Some 10), Ev_AvcodecOpen2 0, Ev_AvParserInit (Some 11),
                 Ev_AvFrameAlloc (Some 12), Ev_AvPacketAlloc (Some 13), Ev_AvInitPacket]))
              (Some 13) OR AV_CODEC_FLAG_TRUNCATED fake_engine))
        (fake_at 14 [Ev_AvcodecRegisterAll, Ev_AvcodecFindDecoder (Some 1),
           Ev_AvcodecAllocContext3 (Some 10), Ev_AvcodecOpen2 0, Ev_AvParserInit (Some 11),
           Ev_AvFrameAlloc (Some 12), Ev_AvPacketAlloc (Some 13), Ev_AvInitPacket]) =
      fake_at 14 [Ev_AvcodecRegisterAll, Ev_AvcodecFindDecoder (Some 1),
         Ev_AvcodecAllocContext3 (Some 10), Ev_AvcodecOpen2 0, Ev_AvParserInit (Some 11),
         Ev_AvFrameAlloc (Some 12), Ev_AvPacketAlloc (Some 13), Ev_AvInitPacket, Ev_SetFlags]"
    by code_simp
  have t2: "extern Ev_AvcodecFindDecoder (AvcodecFindDecoder fake_engine 0)
        (fake_at 10 [Ev_AvcodecRegisterAll]) =
      (None, fake_at 10 [Ev_AvcodecRegisterAll, Ev_AvcodecFindDecoder None])"
    by code_simp
  have five: "New fake_engine 2 5 fake_start =
     (Inl ''unsupported compression'',
      fake_at 14 [Ev_AvcodecRegisterAll, Ev_AvcodecFindDecoder (Some 1),
        Ev_AvcodecAllocContext3 (Some 10), Ev_AvcodecOpen2 0, Ev_AvParserInit (Some 11),
        Ev_AvFrameAlloc (Some 12), Ev_AvPacketAlloc (Some 13), Ev_AvInitPacket, Ev_SetFlags])"
    using New_other_compression [OF a s1 s2 s3 s4 s5 s6 s7 s8 s9, of 2] by simp
  have zero: "New fake_engine 2 0 fake_start =
     (Inl ''cannot find decoder'', fake_at 10 [Ev_AvcodecRegisterAll, Ev_AvcodecFindDecoder None])"
    using New_other_compression [OF b s1 t2 surjective_pairing surjective_pairing
        surjective_pairing surjective_pairing surjective_pairing refl refl, of 2]
    by simp
  from a b five zero show ?thesis by simp
qed


text \<open>
  Claim C8 as stated fails. For the compression value \<open>0\<close>, which is neither H264 nor
  H265, \<open>New\<close> fails with \<^verbatim>\<open>cannot find decoder\<close>, not with
  \<^verbatim>\<open>unsupported compression\<close>.
\<close>

theorem New_other_compression_counterexample:
  "(0 :: int) \<noteq> H264 fake_engine \<and> (0 :: int) \<noteq> H265 fake_engine \<and>
   New fake_engine 2 0 fake_start =
     (Inl ''cannot find decoder'',
      fake_start\<lparr>trace := [Ev_AvcodecRegisterAll, Ev_AvcodecFindDecoder None]\<rparr>)"
  by code_simp

section \<open>Conversion\<close>

text \<open>
  Claim C7 on the code. When the scaler cannot build its context, \<^verbatim>\<open>Convert\<close> goes
  on: the test that follows the construction is on the codec context, not on the scaling
  context. It returns the converter's frame with a \<^verbatim>\<open>nil\<close> error after calling the
  scaler with the \<^verbatim>\<open>nil\<close> context, and \<open>Decode\<close> returns a frame for the unit.
\<close>

theorem Convert_without_scaling_context:
  "Convert no_scaler_engine (d_converter fake_decoder) (d_context fake_decoder)
       (d_frame fake_decoder) (Some 15) fake_ready =
     (Inr (Some 14),
      fake_ready\<lparr>trace := [Ev_SwsGetcontext None, Ev_AvSetFrame None, Ev_AvpictureFill 6,
        Ev_SwsScale2 1]\<rparr>) \<and>
   returned (Decode no_scaler_engine fake_decoder [1] fake_ready) =
     Some (Ret ([\<lparr>Data = 0, Width = 2, Height = 1, Stride = 6\<rparr>], None))"
  by code_simp

section \<open>Errors inside a call of \<open>Decode\<close>\<close>

text \<open>Every return of \<^verbatim>\<open>decodeFrameImpl\<close> that carries an error carries no frame.\<close>

lemma decodeFrameImpl_error_no_frame:
  "decodeFrameImpl eng h data w = Ret ((frame, nread, available, Some err), w') \<Longrightarrow> frame = None"
  by (auto simp: decodeFrameImpl_def Let_def split: prod.splits sum.splits go.splits if_splits)

text \<open>
  Claim C10. \<open>Decode\<close> called with an empty chunk returns an empty frame list and a
  \<^verbatim>\<open>nil\<close> error, and the world it returns is the world it was given: the native state,
  the heap and the list of native calls are unchanged, so no parser or engine call was made.
\<close>

theorem Decode_empty_chunk:
  "Decode eng h [] w = Some (Ret (([], None), w))"
  by (simp add: Decode_def Decode_loop.simps)

text \<open>
  Claim C1, as the code has it. At any iteration of the loop, whatever frames have been
  appended so far: when the step fails and the parser reported fewer than zero bytes
  consumed, \<open>Decode\<close> returns at once, in the world that step left, with the error and with
  a \<^verbatim>\<open>nil\<close> frame list. The frames appended so far are not returned.
\<close>

theorem Decode_abort_discards_frames:
  assumes "data \<noteq> []"
    and "decodeFrameImpl eng h data w = Ret ((frame, nread, available, Some err), w')"
    and "nread < 0"
  shows "Decode_loop eng h frames data w = Some (Ret (([], Some err), w'))"
  using assms by (subst Decode_loop.simps) simp

text \<open>The same at the small engine: one frame appended, then the byte \<open>3\<close>.\<close>

theorem Decode_abort_discards_frames_witness:
  "[3] \<noteq> ([] :: byte list) \<and>
   decodeFrameImpl fake_engine fake_decoder [3] fake_ready =
     Ret ((None, - 1, True, Some ''error decoding frame''),
          fake_ready\<lparr>native := \<lparr>f_next = 15, f_pkt = 1, f_unit = 3, f_pics = 0\<rparr>,
            trace := [Ev_AvParserParse2 (- 1), Ev_AvcodecDecodeVideo2 (- 1, 0)]\<rparr>) \<and>
   (- 1 :: int) < 0 \<and>
   Decode_loop fake_engine fake_decoder [\<lparr>Data = 0, Width = 2, Height = 1, Stride = 6\<rparr>] [3]
       fake_ready =
     Some (Ret (([], Some ''error decoding frame''),
          fake_ready\<lparr>native := \<lparr>f_next = 15, f_pkt = 1, f_unit = 3, f_pics = 0\<rparr>,
            trace := [Ev_AvParserParse2 (- 1), Ev_AvcodecDecodeVideo2 (- 1, 0)]\<rparr>))"
proof -
  have step: "decodeFrameImpl fake_engine fake_decoder [3] fake_ready =
     Ret ((None, - 1, True, Some ''error decoding frame''),
          fake_ready\<lparr>native := \<lparr>f_next = 15, f_pkt = 1, f_unit = 3, f_pics = 0\<rparr>,
            trace := [Ev_AvParserParse2 (- 1), Ev_AvcodecDecodeVideo2 (- 1, 0)]\<rparr>)"
    by code_simp
  from Decode_abort_discards_frames
         [OF _ step, of "[\<lparr>Data = 0, Width = 2, Height = 1, Stride = 6\<rparr>]"] step
  show ?thesis by simp
qed

text \<open>
  Claim C1 as stated fails. On the chunk \<open>[1, 3]\<close> the first iteration assembles a frame,
  the second fails with \<open>- 1\<close> bytes consumed, and the call returns the error with an empty
  frame list, not with the frame assembled.
\<close>

theorem Decode_abort_counterexample:
  "map_go fst (decodeFrameImpl fake_engine fake_decoder [1, 3] fake_ready) =
     Ret (Some \<lparr>Data = 0, Width = 2, Height = 1, Stride = 6\<rparr>, 1, True, None) \<and>
   returned (Decode fake_engine fake_decoder [1, 3] fake_ready) =
     Some (Ret ([], Some ''error decoding frame''))"
  by code_simp

text \<open>
  Claim C2, as the code has it. At any iteration of the loop: when the step fails and the
  parser reported a number of bytes consumed between zero and the length of the rest of the
  chunk, the error is dropped. No frame is appended, the scan goes on after the bytes
  consumed, and the call returns what the rest of the scan returns.
\<close>

theorem Decode_unit_failure_dropped:
  assumes "data \<noteq> []"
    and "decodeFrameImpl eng h data w = Ret ((frame, nread, available, Some err), w')"
    and "0 \<le> nread" and "nread \<le> int (length data)"
  shows "Decode_loop eng h frames data w = Decode_loop eng h frames (drop (nat nread) data) w'"
proof -
  have "frame = None" using assms(2) by (rule decodeFrameImpl_error_no_frame)
  with assms show ?thesis by (subst Decode_loop.simps) simp
qed

text \<open>The same at the small engine, on the chunk \<open>[2, 1]\<close>.\<close>

theorem Decode_unit_failure_dropped_witness:
  "[2, 1] \<noteq> ([] :: byte list) \<and>
   decodeFrameImpl fake_engine fake_decoder [2, 1] fake_ready =
     Ret ((None, 1, True, Some ''error decoding frame''),
          fake_ready\<lparr>native := \<lparr>f_next = 15, f_pkt = 1, f_unit = 2, f_pics = 0\<rparr>,
            trace := [Ev_AvParserParse2 1, Ev_AvcodecDecodeVideo2 (- 1, 0)]\<rparr>) \<and>
   (0 :: int) \<le> 1 \<and> (1 :: int) \<le> int (length [2 :: byte, 1]) \<and>
   Decode_loop fake_engine fake_decoder [] [2, 1] fake_ready =
     Decode_loop fake_engine fake_decoder [] [1]
       (fake_ready\<lparr>native := \<lparr>f_next = 15, f_pkt = 1, f_unit = 2, f_pics = 0\<rparr>,
            trace := [Ev_AvParserParse2 1, Ev_AvcodecDecodeVideo2 (- 1, 0)]\<rparr>)"
proof -
  have step: "decodeFrameImpl fake_engine fake_decoder [2, 1] fake_ready =
     Ret ((None, 1, True, Some ''error decoding frame''),
          fake_ready\<lparr>native := \<lparr>f_next = 15, f_pkt = 1, f_unit = 2, f_pics = 0\<rparr>,
            trace := [Ev_AvParserParse2 1, Ev_AvcodecDecodeVideo2 (- 1, 0)]\<rparr>)"
    by code_simp
  from Decode_unit_failure_dropped [OF _ step, of "[]"] step
  show ?thesis by simp
qed

text \<open>
  Claim C2 as stated fails. On the chunk \<open>[2, 1]\<close> the first unit fails to decode with one
  byte consumed, and the call returns the frame of the second unit with a \<^verbatim>\<open>nil\<close>
  error.
\<close>

theorem Decode_unit_failure_counterexample:
  "map_go fst (decodeFrameImpl fake_engine fake_decoder [2, 1] fake_ready) =
     Ret (None, 1, True, Some ''error decoding frame'') \<and>
   returned (Decode fake_engine fake_decoder [2, 1] fake_ready) =
     Some (Ret ([\<lparr>Data = 0, Width = 2, Height = 1, Stride = 6\<rparr>], None))"
  by code_simp

section \<open>Chunks without a coded unit\<close>







section \<open>An invariant of the loop of \<open>Decode\<close>\<close>

text \<open>
  A property of the frames appended so far and of the world that holds at the start, is
  kept by every iteration, and holds of the empty list whenever it holds of a list, holds
  of what the call returns.
\<close>

lemma Decode_loop_invariant:
  assumes run: "Decode_loop eng h frames data w = Some (Ret ((fs, err), w'))"
    and init: "I frames w"
    and step: "\<And>frames data w frame nread available err w'.
      I frames w \<Longrightarrow> data \<noteq> [] \<Longrightarrow>
      decodeFrameImpl eng h data w = Ret ((frame, nread, available, err), w') \<Longrightarrow>
      I (if available \<and> frame \<noteq> None then frames @ [the frame] else frames) w'"
    and abort: "\<And>frames w. I frames w \<Longrightarrow> I [] w"
  shows "I fs w'"
proof -
  have "Decode_loop eng0 h0 frames data w = Some y \<Longrightarrow>
        eng0 = eng \<longrightarrow> h0 = h \<longrightarrow> I frames w \<longrightarrow> (\<forall>fs err w'. y = Ret ((fs, err), w') \<longrightarrow> I fs w')"
    for eng0 h0 frames data w y
  proof (induction rule: Decode_loop.raw_induct [rotated 1, consumes 1])
    case (1 loop eng0 h0 frames data w y)
    show ?case
    proof (intro impI allI)
      fix fs err w'
      assume e: "eng0 = eng" "h0 = h" and i: "I frames w" and y: "y = Ret ((fs, err), w')"
      show "I fs w'"
      proof (cases "data = []")
        case True
        with "1.hyps" y i show ?thesis by simp
      next
        case False
        show ?thesis
        proof (cases "decodeFrameImpl eng h data w")
          case Panic
          with "1.hyps" False e y show ?thesis by simp
        next
          case (Ret r)
          obtain frame nread available err1 w1 where r: "r = ((frame, nread, available, err1), w1)"
            by (metis surj_pair)
          let ?frames' = "if available \<and> frame \<noteq> None then frames @ [the frame] else frames"
          have i1: "I ?frames' w1" using step [OF i False] Ret r by simp
          show ?thesis
          proof (cases "err1 \<noteq> None \<and> nread < 0")
            case True
            with "1.hyps" False e y Ret r have "fs = []" "w' = w1"
              by (auto split: if_splits)
            with abort [OF i1] show ?thesis by simp
          next
            case nab: False
            show ?thesis
            proof (cases "nread < 0 \<or> int (length data) < nread")
              case True
              with "1.hyps" \<open>data \<noteq> []\<close> e y Ret r nab show ?thesis
                by (auto simp: Let_def split: if_splits)
            next
              case False
              with "1.hyps" \<open>data \<noteq> []\<close> e y Ret r nab
              have "loop eng h ?frames' (drop (nat nread) data) w1 = Some y"
                by (auto simp: Let_def split: if_splits)
              from "1.IH" [OF this] i1 y show ?thesis by simp
            qed
          qed
        qed
      qed
    qed
  qed
  from this [OF run] init show ?thesis by simp
qed

section \<open>The Go heap during a call of \<open>Decode\<close>\<close>

lemma heap_extern: "extern ev f w = (r, w') \<Longrightarrow> heap w' = heap w"
  by (auto simp: extern_def split: prod.splits)

lemma heap_extern_unit: "heap (extern_unit ev f w) = heap w"
  by (simp add: extern_unit_def)

lemma parse_heap: "parse eng h data bs w = (r, w') \<Longrightarrow> heap w' = heap w"
  unfolding parse_def by (rule heap_extern)

lemma decodeFrame_heap: "decodeFrame eng h w = (r, w') \<Longrightarrow> heap w' = heap w"
  by (auto simp: decodeFrame_def split: prod.splits if_splits dest: heap_extern)

lemma PredictSize_heap: "PredictSize eng c w0 h0 w = (r, w') \<Longrightarrow> heap w' = heap w"
  unfolding PredictSize_def by (rule heap_extern)

lemma Convert_heap: "Convert eng c ctx frame out_rgb w = (r, w') \<Longrightarrow> heap w' = heap w"
  by (auto simp: Convert_def Let_def split: prod.splits if_splits option.splits
      dest!: heap_extern)

lemma newFrame_Ret:
  assumes "newFrame eng p w = Ret (f, w')"
  shows "Data f = length (heap w)"
    and "Width f = FrameWidth eng (native w) p"
    and "Height f = FrameHeight eng (native w) p"
    and "Stride f = sint (FrameLinesize eng (native w) p 0)"
    and "0 \<le> C_int (go_int (Stride f * Height f))"
    and "\<exists>bs. heap w' = heap w @ [bs] \<and>
           int (length bs) = C_int (go_int (Stride f * Height f))"
  using assms
  by (auto simp: newFrame_def frameData_def GoBytes_def Let_def split: go.splits if_splits)

lemma decodeFrameImpl_no_frame:
  "decodeFrameImpl eng h data w = Ret ((None, nread, available, err), w') \<Longrightarrow> heap w' = heap w"
  by (auto simp: decodeFrameImpl_def Let_def heap_extern_unit
      split: prod.splits sum.splits go.splits if_splits
      dest!: parse_heap decodeFrame_heap PredictSize_heap heap_extern Convert_heap)

lemma decodeFrameImpl_frame:
  assumes a: "decodeFrameImpl eng h data w = Ret ((Some f, nread, available, err), w')"
  obtains frame buffer w4 rgbframe w5 w6 where
    "Convert eng (d_converter h) (d_context h) frame buffer w4 = (Inr rgbframe, w5)"
    and "heap w5 = heap w" and "newFrame eng rgbframe w5 = Ret (f, w6)"
    and "heap w' = heap w6"
proof -
  obtain nr w1 where p: "parse eng h data (int (length data)) w = (nr, w1)"
    by (metis surj_pair)
  obtain r w2 where d: "decodeFrame eng h w1 = (r, w2)"
    by (metis surj_pair)
  have av: "isFrameAvailable eng h w1"
    using a p by (auto simp: decodeFrameImpl_def split: if_splits)
  obtain frame where r: "r = Inr frame"
    using a p d av by (cases r) (auto simp: decodeFrameImpl_def)
  obtain predicted w3 where ps:
    "PredictSize eng (d_converter h) (ContextWidth eng (native w2) (d_context h))
       (ContextHeight eng (native w2) (d_context h)) w2 = (predicted, w3)"
    by (metis surj_pair)
  obtain buffer w4 where m: "extern Ev_AvMalloc (AvMalloc eng (uintptr predicted)) w3 = (buffer, w4)"
    by (metis surj_pair)
  obtain cr w5 where c: "Convert eng (d_converter h) (d_context h) frame buffer w4 = (cr, w5)"
    by (metis surj_pair)
  obtain rgbframe where cr: "cr = Inr rgbframe"
    using a p d av r ps m c by (cases cr) (auto simp: decodeFrameImpl_def Let_def)
  obtain w6 where nf: "newFrame eng rgbframe w5 = Ret (f, w6)"
    and w': "w' = extern_unit (Ev_AvFree buffer) (AvFree eng buffer) w6"
    using a p d av r ps m c cr by (auto simp: decodeFrameImpl_def Let_def split: go.splits)
  have "heap w5 = heap w"
    using parse_heap [OF p] decodeFrame_heap [OF d] PredictSize_heap [OF ps] heap_extern [OF m]
      Convert_heap [OF c] by simp
  moreover have "heap w' = heap w6"
    using w' by (simp add: heap_extern_unit)
  ultimately show ?thesis using that c cr nf by blast
qed

lemma decodeFrameImpl_alloc:
  assumes a: "decodeFrameImpl eng h data w = Ret ((Some f, nread, available, err), w')"
  shows "Data f = length (heap w) \<and> (\<exists>bs. heap w' = heap w @ [bs])"
proof -
  from a obtain frame buffer w4 rgbframe w5 w6 where
    h5: "heap w5 = heap w" and nf: "newFrame eng rgbframe w5 = Ret (f, w6)"
    and h6: "heap w' = heap w6"
    by (rule decodeFrameImpl_frame)
  from newFrame_Ret(1,6) [OF nf] h5 h6 show ?thesis by auto
qed

lemma fake_run_two:
  "Decode fake_engine fake_decoder [1, 0, 1] fake_ready =
     Some (Ret (([\<lparr>Data = 0, Width = 2, Height = 1, Stride = 6\<rparr>,
                  \<lparr>Data = 1, Width = 2, Height = 1, Stride = 6\<rparr>], None), fake_two))"
  by code_simp

section \<open>The geometry of the frames returned\<close>







section \<open>The buffers of the frames returned\<close>

text \<open>
  Claim C9. The call of \<open>Decode\<close> leaves every buffer that was in the Go heap before it
  as it was, so a frame kept from an earlier call is unchanged. Every frame it returns has
  its data at an address that was not in use before the call, the addresses of the frames
  returned are pairwise different, and a write through the data of one of them leaves the
  data of every other one unchanged. The scratch memory of the decoder is memory of the
  native library, which is not part of the Go heap.
\<close>

theorem Decode_frames_fresh:
  assumes run: "Decode eng h data w = Some (Ret ((fs, err), w'))"
  shows "length (heap w) \<le> length (heap w') \<and>
         (\<forall>a < length (heap w). heap w' ! a = heap w ! a) \<and>
         (\<forall>f \<in> set fs. length (heap w) \<le> Data f \<and> Data f < length (heap w')) \<and>
         distinct (map Data fs) \<and>
         (\<forall>i < length fs. \<forall>j < length fs. i \<noteq> j \<longrightarrow>
            (\<forall>k v. poke (heap w') (Data (fs ! i)) k v ! Data (fs ! j) =
               heap w' ! Data (fs ! j)))"
proof -
  let ?I = "\<lambda>frames w1. (\<exists>xs. heap w1 = heap w @ xs) \<and> distinct (map Data frames) \<and>
              (\<forall>f \<in> set frames. length (heap w) \<le> Data f \<and> Data f < length (heap w1))"
  have inv: "?I fs w'"
  proof (rule Decode_loop_invariant [where I = ?I, OF run [unfolded Decode_def]])
    show "?I [] w" by simp
  next
    fix frames :: "Frame list" and w1 :: "'a world"
    assume "?I frames w1" then show "?I [] w1" by simp
  next
    fix frames :: "Frame list" and data w1 frame nread available err w2
    assume i: "?I frames w1" and "data \<noteq> []"
      and d: "decodeFrameImpl eng h data w1 = Ret ((frame, nread, available, err), w2)"
    show "?I (if available \<and> frame \<noteq> None then frames @ [the frame] else frames) w2"
    proof (cases frame)
      case None
      with d have "heap w2 = heap w1" by (auto dest: decodeFrameImpl_no_frame)
      with i None show ?thesis by simp
    next
      case (Some f)
      with decodeFrameImpl_alloc d obtain bs where
        f: "Data f = length (heap w1)" "heap w2 = heap w1 @ [bs]" by blast
      from i obtain xs where xs: "heap w1 = heap w @ xs" by blast
      have "\<forall>g \<in> set frames. Data g \<noteq> Data f" using i f by auto
      with i f xs Some show ?thesis by auto
    qed
  qed
  then obtain xs where xs: "heap w' = heap w @ xs" by blast
  have d: "distinct (map Data fs)" using inv by simp
  have "Data (fs ! i) \<noteq> Data (fs ! j)" if "i < length fs" "j < length fs" "i \<noteq> j" for i j
    using d that by (simp add: distinct_conv_nth)
  then show ?thesis using inv xs by (simp add: poke_def nth_append)
qed

text \<open>The same at the small engine: byte 3 of the first frame is overwritten.\<close>

theorem Decode_frames_fresh_witness:
  "Decode fake_engine fake_decoder [1, 0, 1] fake_ready =
     Some (Ret (([\<lparr>Data = 0, Width = 2, Height = 1, Stride = 6\<rparr>,
                  \<lparr>Data = 1, Width = 2, Height = 1, Stride = 6\<rparr>], None), fake_two)) \<and>
   length (heap fake_ready) = 0 \<and> length (heap fake_two) = 2 \<and>
   poke (heap fake_two) 0 3 255 = [[1, 1, 1, 255, 1, 1], [2, 2, 2, 2, 2, 2]] \<and>
   poke (heap fake_two) 0 3 255 ! 1 = heap fake_two ! 1"
proof -
  from Decode_frames_fresh [OF fake_run_two, THEN conjunct2, THEN conjunct2, THEN conjunct2,
      THEN conjunct2, rule_format, of 0 1 3 255]
  have "poke (heap fake_two) 0 3 255 ! 1 = heap fake_two ! 1"
    by simp
  moreover have "poke (heap fake_two) 0 3 255 = [[1, 1, 1, 255, 1, 1], [2, 2, 2, 2, 2, 2]]"
    by (simp add: poke_def fake_two_def)
  ultimately show ?thesis using fake_run_two by (simp add: fake_ready_def fake_two_def)
qed

section \<open>The Go code does not read the list of native calls\<close>


lemma shift_simps [simp]:
  "native (shift t w) = native w" "heap (shift t w) = heap w" "trace (shift t w) = t @ trace w"
  by (simp_all add: shift_def)


lemma extern_shift: "extern ev f (shift t w) = apsnd (shift t) (extern ev f w)"
  by (simp add: extern_def shift_def split: prod.splits)


lemma parse_shift: "parse eng h data bs (shift t w) = apsnd (shift t) (parse eng h data bs w)"
  by (simp add: parse_def extern_shift)










lemma same_shift: "same (shift t w) w"
  by (simp add: same_def)




lemma after_parse_nread_Panic:
  "after_parse eng h k w = Panic \<Longrightarrow> after_parse eng h k' w = Panic"
  by (auto simp: after_parse_def Let_def split: if_splits prod.splits sum.splits go.splits)

section \<open>Induction along a run of the loop of \<open>Decode\<close>\<close>



lemma same_result_Panic: "same_result Panic y' \<Longrightarrow> y' = Panic"
  by (simp add: same_result_def)







section \<open>One call on the whole bitstream and successive calls on its chunks\<close>













end
